theory Spec2Isabelle
  imports Main "HOL-Library.Extended_Nat" "HOL-Library.Multiset"
begin

section \<open>JavaScript values used by the reconciliation engine\<close>

text \<open>
  An optional string (\<open>string | undefined\<close>) is a \<open>string option\<close>. JavaScript treats
  both \<open>undefined\<close> and the empty string as falsy, which is what \<open>!x\<close>, \<open>x || y\<close> and
  \<open>if (x)\<close> test in the source.
\<close>

definition truthy :: "string option \<Rightarrow> bool" where
  "truthy v = (case v of None \<Rightarrow> False | Some s \<Rightarrow> s \<noteq> [])"

text \<open>\<open>a || b\<close> on optional strings.\<close>

definition js_or :: "string option \<Rightarrow> string option \<Rightarrow> string option" where
  "js_or a b = (if truthy a then a else b)"

text \<open>
  \<open>Array.prototype.lastIndexOf\<close>: the greatest index holding the value; \<open>None\<close> is the
  source's \<open>-1\<close>.
\<close>

fun lastIndexOf :: "'a list \<Rightarrow> 'a \<Rightarrow> nat option" where
  "lastIndexOf [] x = None"
| "lastIndexOf (y # ys) x =
     (case lastIndexOf ys x of
        Some i \<Rightarrow> Some (Suc i)
      | None \<Rightarrow> if y = x then Some 0 else None)"

text \<open>\<open>Array.prototype.indexOf\<close>: the least index holding the value.\<close>

fun indexOf :: "'a list \<Rightarrow> 'a \<Rightarrow> nat option" where
  "indexOf [] x = None"
| "indexOf (y # ys) x = (if y = x then Some 0 else map_option Suc (indexOf ys x))"

text \<open>The line feed of the template literals (\<open>\n\<close>).\<close>

definition LF :: char where
  "LF = CHR 0x0A"

section \<open>Data model (utils/notebookSync.ts)\<close>

text \<open>\<open>'teacher' | 'teammate'\<close>.\<close>

datatype sender_type = Teacher | Teammate

text \<open>
  One entry of \<open>cells\<close> in an update payload. Every field may be missing from the JSON
  object. The fields are \<open>id\<close>, \<open>cell_id\<close>, \<open>cell_type\<close> and \<open>source\<close> of the source.
\<close>

record cell_update =
  cu_id :: "string option"
  cu_cell_id :: "string option"
  cu_cell_type :: "string option"
  cu_source :: "string option"

text \<open>
  The payload object handed around as \<open>newContent\<close> and stored as \<open>message\<close>:
  its \<open>update_id\<close>, \<open>id\<close>, \<open>cell_id\<close> and \<open>cells\<close> properties (\<open>None\<close>: the property is
  undefined).
\<close>

record payload =
  payload_update_id :: "string option"
  payload_id :: "string option"
  payload_cell_id :: "string option"
  cells :: "cell_update list option"

text \<open>
  A message is either an object or a string that the source passes through
  \<open>JSON.parse\<close>. A string is represented by what \<open>JSON.parse\<close> makes of it:
  \<open>Unparseable\<close> when it throws a SyntaxError, the parsed object otherwise.
\<close>

datatype message = Unparseable | Parsed payload

text \<open>\<open>IPendingUpdate\<close>; \<open>pu_id\<close> is its field \<open>id\<close>.\<close>

record pending_update =
  pu_id :: string
  message :: message
  timeReceived :: string
  sender :: string
  senderType :: sender_type
  updateId :: "string option"
  cellId :: "string option"

datatype action =
  UPDATE_NOW | UPDATE_LATER | UPDATE_ALL | DELETE_ALL | APPLY_SINGLE | REMOVE_SINGLE

text \<open>The record \<open>postPendingUpdateInteraction\<close> sends to the interaction log.\<close>

record interaction =
  notebook_id :: string
  cell_id :: "string option"
  update_id :: "string option"
  log_action :: action
  log_sender :: "string option"
  log_sender_type :: "sender_type option"
  time :: string

text \<open>A cell of the open notebook (\<open>notebook.widgets[i]\<close>): its type and its source text.\<close>

record cell =
  cell_type :: "string option"
  source :: string

text \<open>The exceptions the engine's \<open>try\<close> blocks catch.\<close>

datatype error = SyntaxError | TypeError

text \<open>
  Everything the engine reads and writes for one \<open>NotebookPanel\<close>:
  \<^item> \<open>isDisposed\<close>: \<open>panel.isDisposed\<close>;
  \<^item> \<open>hasModel\<close>: \<open>notebook.model\<close> is not null (the source guards one use with \<open>?.\<close>);
  \<^item> \<open>widgets\<close>, \<open>activeCellIndex\<close>: the notebook's cells and its active cell;
  \<^item> \<open>notebookId\<close>, \<open>pendingUpdates\<close>, \<open>updatedCells\<close>: the notebook metadata under
    \<open>Selectors.notebookId\<close>, \<open>Selectors.pendingUpdates\<close> and \<open>Selectors.updatedCells\<close>;
    for the two lists \<open>None\<close> stands for a missing value or one that is not an array;
  \<^item> \<open>PERSISTENT_USER_ID\<close>: the module-level user id;
  \<^item> \<open>interactions\<close>: the records posted to the interaction log, oldest first;
  \<^item> \<open>reported\<close>: the errors caught and written to the console, oldest first;
  \<^item> \<open>nowISO\<close>, \<open>nowLocale\<close>: what \<open>new Date().toISOString()\<close> and
    \<open>new Date().toLocaleString()\<close> return.
\<close>

record notebook_panel =
  isDisposed :: bool
  hasModel :: bool
  widgets :: "cell list"
  activeCellIndex :: nat
  notebookId :: "string option"
  pendingUpdates :: "pending_update list option"
  updatedCells :: "string list option"
  PERSISTENT_USER_ID :: "string option"
  interactions :: "interaction list"
  reported :: "error list"
  nowISO :: string
  nowLocale :: string

text \<open>
  \<open>getOrigCellMapping\<close> (utils/utils.ts) is not among the sources. The functions below
  take it as a parameter \<open>gm\<close>: any function from the panel to the list of original cell
  ids, one per cell in document order.
\<close>

type_synonym orig_mapping = "notebook_panel \<Rightarrow> string list"

section \<open>Pending Update Store and UpdatedCellsSet\<close>

definition logPendingUpdateInteraction ::
  "notebook_panel \<Rightarrow> action \<Rightarrow> string option \<Rightarrow> string option \<Rightarrow> sender_type option
     \<Rightarrow> string option \<Rightarrow> notebook_panel" where
  "logPendingUpdateInteraction panel act cid sndr sndrType uid =
     (if \<not> truthy (PERSISTENT_USER_ID panel) then panel
      else case notebookId panel of
        None \<Rightarrow> panel
      | Some nbid \<Rightarrow>
          if nbid = [] then panel
          else panel\<lparr>interactions := interactions panel @
                 [\<lparr>notebook_id = nbid, cell_id = cid, update_id = uid, log_action = act,
                   log_sender = sndr, log_sender_type = sndrType, time = nowISO panel\<rparr>]\<rparr>)"

definition getPendingUpdates :: "notebook_panel \<Rightarrow> pending_update list" where
  "getPendingUpdates panel =
     (if isDisposed panel then []
      else case pendingUpdates panel of None \<Rightarrow> [] | Some list \<Rightarrow> list)"

definition setPendingUpdates :: "notebook_panel \<Rightarrow> pending_update list \<Rightarrow> notebook_panel" where
  "setPendingUpdates panel updates = panel\<lparr>pendingUpdates := Some updates\<rparr>"

text \<open>
  \<open>removePendingUpdate\<close>. The re-render of the sidebar it triggers changes nothing of the
  state modelled here.
\<close>

definition removePendingUpdate ::
  "notebook_panel \<Rightarrow> string \<Rightarrow> bool \<Rightarrow> string option \<Rightarrow> sender_type option \<Rightarrow> string option
     \<Rightarrow> notebook_panel" where
  "removePendingUpdate panel cid logInteraction sndr sndrType uid =
     (if isDisposed panel then panel
      else
        let updates = getPendingUpdates panel;
            panel1 =
              (case find (\<lambda>u. pu_id u = cid) updates of
                 None \<Rightarrow> panel
               | Some updateToRemove \<Rightarrow>
                   if logInteraction then
                     logPendingUpdateInteraction panel REMOVE_SINGLE (Some cid)
                       (js_or sndr (Some (sender updateToRemove)))
                       (case sndrType of None \<Rightarrow> Some (senderType updateToRemove) | Some t \<Rightarrow> Some t)
                       (js_or uid (updateId updateToRemove))
                   else panel)
        in setPendingUpdates panel1 (filter (\<lambda>u. pu_id u \<noteq> cid) updates))"

definition getUpdatedCells :: "notebook_panel \<Rightarrow> string list" where
  "getUpdatedCells panel =
     (if isDisposed panel then []
      else case updatedCells panel of None \<Rightarrow> [] | Some list \<Rightarrow> list)"

definition markCellAsUpdated :: "notebook_panel \<Rightarrow> string \<Rightarrow> notebook_panel" where
  "markCellAsUpdated panel cid =
     (let cur = getUpdatedCells panel
      in if cid \<notin> set cur then panel\<lparr>updatedCells := Some (cur @ [cid])\<rparr> else panel)"

text \<open>
  The \<open>Update Later\<close> button of \<open>showUpdateNotification\<close>: the upsert of the store.
  \<open>cid\<close> and \<open>finalUpdateId\<close> are the \<open>cellId\<close> and \<open>finalUpdateId\<close> the enclosing
  function has computed.
\<close>

definition laterButton_click ::
  "notebook_panel \<Rightarrow> message \<Rightarrow> string option \<Rightarrow> string \<Rightarrow> string \<Rightarrow> sender_type
     \<Rightarrow> notebook_panel" where
  "laterButton_click panel newContent cid finalUpdateId sndr sndrType =
     (let updates = getPendingUpdates panel;
          newUpdate = \<lparr>pu_id = (case js_or cid (Some finalUpdateId) of
                                   Some i \<Rightarrow> i | None \<Rightarrow> finalUpdateId),
                       message = newContent,
                       timeReceived = nowISO panel,
                       sender = sndr,
                       senderType = sndrType,
                       updateId = Some finalUpdateId,
                       cellId = cid\<rparr>;
          filteredUpdates = filter (\<lambda>u. pu_id u \<noteq> pu_id newUpdate) updates @ [newUpdate];
          panel1 = setPendingUpdates panel filteredUpdates
      in logPendingUpdateInteraction panel1 UPDATE_LATER cid (Some sndr) (Some sndrType)
           (Some finalUpdateId))"

section \<open>Update Reconciler: the merge algorithm\<close>

text \<open>
  The host editor's document operations the merge calls, as the host documents them:
  \<open>NotebookActions.insertAbove\<close> inserts a new, empty code cell at the active index (the
  new cell is then the active one), \<open>NotebookActions.changeCellType\<close> changes the
  type of the active cell, \<open>sharedModel.setSource\<close> replaces a cell's text and
  \<open>sharedModel.addCell\<close> appends a cell at the end of the document.
\<close>

definition insertAbove :: "notebook_panel \<Rightarrow> notebook_panel" where
  "insertAbove panel =
     panel\<lparr>widgets := take (activeCellIndex panel) (widgets panel) @
                        [\<lparr>cell_type = Some ''code'', source = []\<rparr>] @
                        drop (activeCellIndex panel) (widgets panel)\<rparr>"

definition changeCellType :: "notebook_panel \<Rightarrow> string \<Rightarrow> notebook_panel" where
  "changeCellType panel ty =
     panel\<lparr>widgets := (widgets panel)
        [activeCellIndex panel := (widgets panel ! activeCellIndex panel)\<lparr>cell_type := Some ty\<rparr>]\<rparr>"

definition setSource :: "notebook_panel \<Rightarrow> nat \<Rightarrow> string \<Rightarrow> notebook_panel" where
  "setSource panel i src =
     panel\<lparr>widgets := (widgets panel)[i := (widgets panel ! i)\<lparr>source := src\<rparr>]\<rparr>"

definition addCell :: "notebook_panel \<Rightarrow> cell_update \<Rightarrow> notebook_panel" where
  "addCell panel cu =
     panel\<lparr>widgets := widgets panel @
        [\<lparr>cell_type = cu_cell_type cu,
          source = (case cu_source cu of None \<Rightarrow> [] | Some src \<Rightarrow> src)\<rparr>]\<rparr>"

text \<open>\<open>cellUpdate.cell_type || 'code'\<close>.\<close>

definition cellType_of :: "cell_update \<Rightarrow> string" where
  "cellType_of cu = (case js_or (cu_cell_type cu) (Some ''code'') of
                      Some ty \<Rightarrow> ty | None \<Rightarrow> ''code'')"

text \<open>
  The template literal around \<open>cellUpdate.source\<close>: an undefined source prints as
  \<open>undefined\<close>. Markdown cells get the marker line without the comment sign.
\<close>

definition cellUpdateSource :: "string \<Rightarrow> cell_update \<Rightarrow> string" where
  "cellUpdateSource timeRcv cu =
     (if cellType_of cu = ''markdown'' then ''CELL RECEIVED AT '' else ''# CELL RECEIVED AT '')
     @ timeRcv @ [LF, LF] @ (case cu_source cu of None \<Rightarrow> ''undefined'' | Some src \<Rightarrow> src)"

definition yourCodePrefix :: string where
  "yourCodePrefix = ''# YOUR CODE'' @ [LF, LF]"

text \<open>
  One iteration of the loop over \<open>cellUpdates\<close> in \<open>updateNotebookContent\<close>.
  \<open>origCellMapping\<close>, \<open>timeRcv\<close> and \<open>updatedCellsSnap\<close> are the values read once before
  the loop. Reading \<open>notebook.widgets[cellIndex]\<close> beyond the last cell gives undefined,
  and the property access on it throws a TypeError before anything has been changed.
  Setting \<open>notebook.mode\<close> and scrolling to the active cell change nothing of the state
  modelled here.
\<close>

definition applyCellUpdate ::
  "string list \<Rightarrow> string \<Rightarrow> string list \<Rightarrow> notebook_panel \<Rightarrow> cell_update
     \<Rightarrow> error + notebook_panel" where
  "applyCellUpdate origCellMapping timeRcv updatedCellsSnap panel cu =
     (let cellIndex = (case cu_id cu of None \<Rightarrow> None | Some i \<Rightarrow> lastIndexOf origCellMapping i);
          cellType = cellType_of cu;
          newSource = cellUpdateSource timeRcv cu
      in case cellIndex of
           None \<Rightarrow>
             Inr (if hasModel panel then addCell panel (cu\<lparr>cu_source := Some newSource\<rparr>)
                  else panel)
         | Some ci \<Rightarrow>
             let isFirstUpdate = (case cu_id cu of None \<Rightarrow> True
                                  | Some i \<Rightarrow> i \<notin> set updatedCellsSnap)
             in if isFirstUpdate then
                  (if length (widgets panel) \<le> ci then Inl TypeError
                   else
                     let existingSource = source (widgets panel ! ci);
                         p1 = insertAbove (panel\<lparr>activeCellIndex := ci\<rparr>);
                         p2 = (if cellType = ''markdown'' then changeCellType p1 cellType else p1);
                         p3 = setSource p2 ci (yourCodePrefix @ existingSource);
                         p4 = setSource p3 (ci + 1) newSource;
                         p5 = (case cu_id cu of None \<Rightarrow> p4 | Some i \<Rightarrow> markCellAsUpdated p4 i)
                     in Inr (p5\<lparr>activeCellIndex := ci + 1\<rparr>))
                else
                  (if length (widgets panel) \<le> ci then Inl TypeError
                   else Inr ((setSource panel ci newSource)\<lparr>activeCellIndex := ci\<rparr>)))"

text \<open>
  The \<open>for ... of\<close> loop: an exception leaves the loop with the document as the earlier
  iterations have made it.
\<close>

fun applyCellUpdates ::
  "string list \<Rightarrow> string \<Rightarrow> string list \<Rightarrow> notebook_panel \<Rightarrow> cell_update list
     \<Rightarrow> notebook_panel \<times> error option" where
  "applyCellUpdates m t uc panel [] = (panel, None)"
| "applyCellUpdates m t uc panel (cu # cus) =
     (case applyCellUpdate m t uc panel cu of
        Inl e \<Rightarrow> (panel, Some e)
      | Inr panel' \<Rightarrow> applyCellUpdates m t uc panel' cus)"

text \<open>The loop that logs one \<open>APPLY_SINGLE\<close> record per cell of the payload.\<close>

fun logApplySingle ::
  "notebook_panel \<Rightarrow> string option \<Rightarrow> string option \<Rightarrow> sender_type option \<Rightarrow> string option
     \<Rightarrow> cell_update list \<Rightarrow> notebook_panel" where
  "logApplySingle panel cid sndr sndrType uid [] = panel"
| "logApplySingle panel cid sndr sndrType uid (cu # cus) =
     logApplySingle
       (logPendingUpdateInteraction panel APPLY_SINGLE
          (js_or cid (js_or (cu_id cu) (cu_cell_id cu))) sndr sndrType uid)
       cid sndr sndrType uid cus"

text \<open>
  The body of the \<open>try\<close> block of \<open>updateNotebookContent\<close>: the panel as the body left
  it, and the exception that ended it, if any. \<open>JSON.parse\<close> of an unparseable string
  throws a SyntaxError; iterating over a \<open>cells\<close> property that is undefined throws a
  TypeError.
\<close>

definition updateNotebookContent_try ::
  "orig_mapping \<Rightarrow> notebook_panel \<Rightarrow> message \<Rightarrow> string option \<Rightarrow> string option
     \<Rightarrow> string option \<Rightarrow> sender_type option \<Rightarrow> bool \<Rightarrow> notebook_panel \<times> error option" where
  "updateNotebookContent_try gm panel newContent uid cid sndr sndrType skipLogging =
     (case newContent of
        Unparseable \<Rightarrow> (panel, Some SyntaxError)
      | Parsed obj \<Rightarrow>
          (case cells obj of
             None \<Rightarrow> (panel, Some TypeError)
           | Some cellUpdates \<Rightarrow>
               (case applyCellUpdates (gm panel) (nowLocale panel) (getUpdatedCells panel)
                       panel cellUpdates of
                  (panel1, Some e) \<Rightarrow> (panel1, Some e)
                | (panel1, None) \<Rightarrow>
                    if \<not> skipLogging \<and> truthy uid \<and> truthy (PERSISTENT_USER_ID panel1) then
                      (if truthy (notebookId panel1)
                       then (logApplySingle panel1 cid sndr sndrType uid cellUpdates, None)
                       else (panel1, None))
                    else (panel1, None))))"

text \<open>\<open>updateNotebookContent\<close>: the \<open>catch\<close> reports the exception and returns normally.\<close>

definition updateNotebookContent ::
  "orig_mapping \<Rightarrow> notebook_panel \<Rightarrow> message \<Rightarrow> string option \<Rightarrow> string option
     \<Rightarrow> string option \<Rightarrow> sender_type option \<Rightarrow> bool \<Rightarrow> notebook_panel" where
  "updateNotebookContent gm panel newContent uid cid sndr sndrType skipLogging =
     (case updateNotebookContent_try gm panel newContent uid cid sndr sndrType skipLogging of
        (panel1, None) \<Rightarrow> panel1
      | (panel1, Some e) \<Rightarrow> panel1\<lparr>reported := reported panel1 @ [e]\<rparr>)"

text \<open>
  The ids \<open>applyPendingUpdate\<close> passes on for logging: the stored \<open>updateId\<close> and
  \<open>cellId\<close>, completed from the message when one of them is missing. A message that
  does not parse is skipped with a warning.
\<close>

definition pendingIds :: "pending_update \<Rightarrow> string option \<times> string option" where
  "pendingIds pending =
     (let uid = updateId pending; cid = cellId pending
      in if \<not> truthy uid \<or> \<not> truthy cid then
           (case message pending of
              Unparseable \<Rightarrow> (uid, cid)
            | Parsed parsed \<Rightarrow>
                (js_or (js_or uid (payload_update_id parsed)) None,
                 if \<not> truthy cid then
                   (if truthy (payload_id parsed) then payload_id parsed
                    else if truthy (payload_cell_id parsed) then payload_cell_id parsed
                    else case cells parsed of
                      Some (c # cs) \<Rightarrow> js_or (cu_id c) (cu_cell_id c)
                    | _ \<Rightarrow> cid)
                 else cid))
         else (uid, cid))"

text \<open>
  \<open>applyPendingUpdate\<close>: apply the stored message, then remove the entry.
  \<open>updateNotebookContent\<close> catches its own exceptions, so the removal that follows
  it always runs.
\<close>

definition applyPendingUpdate ::
  "orig_mapping \<Rightarrow> notebook_panel \<Rightarrow> pending_update \<Rightarrow> bool \<Rightarrow> notebook_panel" where
  "applyPendingUpdate gm panel pending skipLogging =
     (let (uid, cid) = pendingIds pending;
          panel1 = updateNotebookContent gm panel (message pending) uid cid
                     (Some (sender pending)) (Some (senderType pending)) skipLogging
      in removePendingUpdate panel1 (pu_id pending) False None None None)"

section \<open>Pending updates sidebar: filter, sort, Apply All\<close>

datatype filter_mode = FilterAll | FilterTeacher | FilterTeammates | FilterSelected

text \<open>
  The fields of \<open>PendingUpdatesSidebar\<close> the operations below read: \<open>_filterMode\<close> and
  \<open>_selectedTeammateFilters\<close>.
\<close>

record sidebar =
  filterMode :: filter_mode
  selectedTeammateFilters :: "string list"

definition getFilteredUpdates :: "sidebar \<Rightarrow> notebook_panel \<Rightarrow> pending_update list" where
  "getFilteredUpdates sb panel =
     (if isDisposed panel then []
      else
        let updates = getPendingUpdates panel
        in case filterMode sb of
             FilterTeacher \<Rightarrow> filter (\<lambda>u. senderType u = Teacher) updates
           | FilterTeammates \<Rightarrow> filter (\<lambda>u. senderType u = Teammate) updates
           | FilterSelected \<Rightarrow>
               filter (\<lambda>u. senderType u = Teammate \<and>
                            sender u \<in> set (selectedTeammateFilters sb)) updates
           | FilterAll \<Rightarrow> updates)"

text \<open>The loop of \<open>Apply All\<close> over the filtered view, each item with \<open>skipLogging = true\<close>.\<close>

fun applyAll_loop :: "orig_mapping \<Rightarrow> notebook_panel \<Rightarrow> pending_update list \<Rightarrow> notebook_panel" where
  "applyAll_loop gm panel [] = panel"
| "applyAll_loop gm panel (u # us) = applyAll_loop gm (applyPendingUpdate gm panel u True) us"

text \<open>
  The click handler of the \<open>Apply All\<close> button, for a sidebar whose current panel is
  \<open>panel\<close>.
\<close>

definition applyAllBtn_onclick :: "orig_mapping \<Rightarrow> sidebar \<Rightarrow> notebook_panel \<Rightarrow> notebook_panel" where
  "applyAllBtn_onclick gm sb panel =
     (if isDisposed panel then panel
      else
        case getFilteredUpdates sb panel of
          [] \<Rightarrow> panel
        | u0 # rest \<Rightarrow>
            let panel1 =
                  (if truthy (updateId u0) then
                     logPendingUpdateInteraction panel UPDATE_ALL None (Some (sender u0))
                       (Some (senderType u0)) (updateId u0)
                   else panel)
            in applyAll_loop gm panel1 (u0 # rest))"

text \<open>
  The comparator of the \<open>cell\<close> sort key in \<open>render\<close> works on JavaScript numbers:
  a position in the mapping, or \<open>Number.POSITIVE_INFINITY\<close> for an id the mapping does
  not hold; the difference of two infinities is \<open>NaN\<close>.
\<close>

datatype number = Finite int | PosInfinity | NegInfinity | NaN

fun js_minus :: "number \<Rightarrow> number \<Rightarrow> number" where
  "js_minus (Finite a) (Finite b) = Finite (a - b)"
| "js_minus NaN y = NaN"
| "js_minus x NaN = NaN"
| "js_minus PosInfinity PosInfinity = NaN"
| "js_minus NegInfinity NegInfinity = NaN"
| "js_minus PosInfinity y = PosInfinity"
| "js_minus NegInfinity y = NegInfinity"
| "js_minus (Finite a) PosInfinity = NegInfinity"
| "js_minus (Finite a) NegInfinity = PosInfinity"

definition compareByCell :: "string list \<Rightarrow> pending_update \<Rightarrow> pending_update \<Rightarrow> number" where
  "compareByCell origMapping a b =
     (let ai = (case lastIndexOf origMapping (pu_id a) of
                  None \<Rightarrow> PosInfinity | Some aPos \<Rightarrow> Finite (int aPos));
          bi = (case lastIndexOf origMapping (pu_id b) of
                  None \<Rightarrow> PosInfinity | Some bPos \<Rightarrow> Finite (int bPos))
      in js_minus ai bi)"

text \<open>
  \<open>Array.prototype.sort\<close> with a comparator: the sort is stable, an element goes after
  another when the comparator's result is greater than zero, and a \<open>NaN\<close> result counts
  as zero. For a comparator that orders the elements consistently the result does not
  depend on the engine's algorithm; it is computed here by stable insertion.
\<close>

definition positive :: "number \<Rightarrow> bool" where
  "positive v = (case v of Finite i \<Rightarrow> 0 < i | PosInfinity \<Rightarrow> True | _ \<Rightarrow> False)"

fun js_insert :: "('a \<Rightarrow> 'a \<Rightarrow> number) \<Rightarrow> 'a \<Rightarrow> 'a list \<Rightarrow> 'a list" where
  "js_insert cmp x [] = [x]"
| "js_insert cmp x (y # ys) =
     (if positive (cmp x y) then y # js_insert cmp x ys else x # y # ys)"

fun js_sort :: "('a \<Rightarrow> 'a \<Rightarrow> number) \<Rightarrow> 'a list \<Rightarrow> 'a list" where
  "js_sort cmp [] = []"
| "js_sort cmp (x # xs) = js_insert cmp x (js_sort cmp xs)"

text \<open>The \<open>cell\<close> branch of the sort in \<open>render\<close> (a sorted copy of the view).\<close>

definition sortByCell :: "string list \<Rightarrow> pending_update list \<Rightarrow> pending_update list" where
  "sortByCell origMapping updates = js_sort (compareByCell origMapping) updates"

text \<open>
  The position the sort orders by, for stating its result: the last index of the update's
  id in the mapping, and \<open>\<infinity>\<close> for an id the mapping does not hold.
\<close>

definition cellPosition :: "string list \<Rightarrow> pending_update \<Rightarrow> enat" where
  "cellPosition origMapping u =
     (case lastIndexOf origMapping (pu_id u) of None \<Rightarrow> \<infinity> | Some i \<Rightarrow> enat i)"

section \<open>Realtime Channel Client (websocket/WebsocketManager.ts)\<close>

text \<open>A socket made by \<open>io\<close>: the ids in its URL, and whether \<open>close\<close> has been called on it.\<close>

record connection =
  nbId :: string
  userId :: string
  closed :: bool

text \<open>
  The \<open>WebsocketManager\<close> and the sockets it has made: \<open>connections\<close> lists every socket
  in order of creation, \<open>socket\<close> is the index of the one the field \<open>_socket\<close> refers to
  (\<open>None\<close>: null), \<open>messageCallback\<close> is \<open>_messageCallback\<close>.
\<close>

record 'cb websocket_manager =
  socket :: "nat option"
  messageCallback :: "'cb option"
  connections :: "connection list"

definition constructor :: "'cb websocket_manager" where
  "constructor = \<lparr>socket = None, messageCallback = None, connections = []\<rparr>"

definition createSocket :: "'cb websocket_manager \<Rightarrow> string \<Rightarrow> string \<Rightarrow> 'cb websocket_manager" where
  "createSocket mgr notebookId' uid =
     mgr\<lparr>socket := Some (length (connections mgr)),
         connections := connections mgr @ [\<lparr>nbId = notebookId', userId = uid, closed = False\<rparr>]\<rparr>"

definition closeSocketConnection :: "'cb websocket_manager \<Rightarrow> 'cb websocket_manager" where
  "closeSocketConnection mgr =
     (case socket mgr of
        Some i \<Rightarrow> mgr\<lparr>socket := None,
                      connections := (connections mgr)[i := (connections mgr ! i)\<lparr>closed := True\<rparr>]\<rparr>
      | None \<Rightarrow> mgr\<lparr>socket := None\<rparr>)"

text \<open>\<open>establishSocketConnection\<close>; \<open>persistentUserId\<close> is the module-level \<open>PERSISTENT_USER_ID\<close>.\<close>

definition establishSocketConnection ::
  "string option \<Rightarrow> 'cb websocket_manager \<Rightarrow> string option \<Rightarrow> 'cb \<Rightarrow> 'cb websocket_manager" where
  "establishSocketConnection persistentUserId mgr notebookId' onMessage =
     (let mgr1 = closeSocketConnection mgr;
          mgr2 = mgr1\<lparr>messageCallback := Some onMessage\<rparr>
      in if \<not> truthy notebookId' \<or> \<not> truthy persistentUserId then mgr2
         else case (notebookId', persistentUserId) of
                (Some n, Some u) \<Rightarrow> createSocket mgr2 n u
              | _ \<Rightarrow> mgr2)"

text \<open>The sockets that are live: made and not closed.\<close>

definition live :: "'cb websocket_manager \<Rightarrow> connection list" where
  "live mgr = filter (\<lambda>c. \<not> closed c) (connections mgr)"

text \<open>A run of \<open>establishSocketConnection\<close> calls on a new manager, first call first.\<close>

definition establish_all ::
  "string option \<Rightarrow> (string option \<times> 'cb) list \<Rightarrow> 'cb websocket_manager" where
  "establish_all persistentUserId calls =
     foldl (\<lambda>mgr (n, cb). establishSocketConnection persistentUserId mgr n cb) constructor calls"

text \<open>
  The invariant of the manager: when \<open>_socket\<close> is null every socket made so far is
  closed; otherwise \<open>_socket\<close> is the socket made last, it is open, and every earlier
  socket is closed.
\<close>

definition wf_manager :: "'cb websocket_manager \<Rightarrow> bool" where
  "wf_manager mgr =
     (case socket mgr of
        None \<Rightarrow> list_all closed (connections mgr)
      | Some i \<Rightarrow> Suc i = length (connections mgr) \<and> \<not> closed (connections mgr ! i) \<and>
                  list_all closed (take i (connections mgr)))"

text \<open>
  The data of a \<open>chat\<close> or \<open>group_chat\<close> event: a string in the old format, or an object
  with \<open>message\<close>, \<open>sender\<close> and an optional \<open>sender_type\<close>.
\<close>

datatype chat_data = Legacy string | Structured string string "string option"

text \<open>
  The characters \<open>\s\<close> and \<open>trim\<close> treat as white space, among the 256 characters of
  \<^typ>\<open>char\<close>: tab, line feed, vertical tab, form feed, carriage return, space and
  no-break space.
\<close>

definition is_ws :: "char \<Rightarrow> bool" where
  "is_ws c = (c \<in> {CHR 0x09, CHR 0x0A, CHR 0x0B, CHR 0x0C, CHR 0x0D, CHR 0x20, CHR 0xA0})"

definition trim :: "string \<Rightarrow> string" where
  "trim s = rev (dropWhile is_ws (rev (dropWhile is_ws s)))"

text \<open>
  \<open>data.match(/^From\s+([^:]+):/)\<close>, returning capture group 1. After \<open>From\<close>,
  \<open>\s+\<close> first takes the whole run of white space and gives characters back one at a
  time while the rest fails. With \<open>n\<close> characters taken, \<open>[^:]+\<close> takes the longest run
  free of colons: the match succeeds when that run is not empty and a colon follows it (a
  shorter run would be followed by a character that is not a colon).
\<close>

fun backtrack_ws :: "nat \<Rightarrow> string \<Rightarrow> string option" where
  "backtrack_ws 0 t = None"
| "backtrack_ws (Suc n) t =
     (let grp = takeWhile (\<lambda>c. c \<noteq> CHR '':'') (drop (Suc n) t);
          rest = dropWhile (\<lambda>c. c \<noteq> CHR '':'') (drop (Suc n) t)
      in if grp \<noteq> [] \<and> rest \<noteq> [] then Some grp else backtrack_ws n t)"

definition fromMatch :: "string \<Rightarrow> string option" where
  "fromMatch data =
     (if take 4 data = ''From''
      then backtrack_ws (length (takeWhile is_ws (drop 4 data))) (drop 4 data)
      else None)"

text \<open>
  The sender of a message in the old format: the trimmed capture group, or the default the
  handler starts from.
\<close>

definition legacySender :: "string \<Rightarrow> string \<Rightarrow> string" where
  "legacySender dflt data =
     (case fromMatch data of
        Some grp \<Rightarrow> if grp \<noteq> [] then trim grp else dflt
      | None \<Rightarrow> dflt)"

text \<open>
  The handlers of the \<open>chat\<close> and \<open>group_chat\<close> events: the call they make, as the
  callback with its three arguments, or \<open>None\<close> when no callback is registered.
\<close>

definition on_chat ::
  "'cb websocket_manager \<Rightarrow> chat_data \<Rightarrow> ('cb \<times> string \<times> string \<times> sender_type) option" where
  "on_chat mgr data =
     (case messageCallback mgr of
        None \<Rightarrow> None
      | Some cb \<Rightarrow>
          (case data of
             Legacy str \<Rightarrow> Some (cb, str, legacySender ''teacher'' str, Teacher)
           | Structured msg sndr sndrType \<Rightarrow>
               Some (cb, msg, sndr, if sndrType = Some ''teacher'' then Teacher else Teammate)))"

definition on_group_chat ::
  "'cb websocket_manager \<Rightarrow> chat_data \<Rightarrow> ('cb \<times> string \<times> string \<times> sender_type) option" where
  "on_group_chat mgr data =
     (case messageCallback mgr of
        None \<Rightarrow> None
      | Some cb \<Rightarrow>
          (case data of
             Legacy str \<Rightarrow> Some (cb, str, legacySender ''teammate'' str, Teammate)
           | Structured msg sndr sndrType \<Rightarrow>
               Some (cb, msg, sndr, if sndrType = Some ''teacher'' then Teacher else Teammate)))"

section \<open>Example states\<close>

text \<open>
  An open notebook with two code cells whose original ids are \<open>o1\<close> and \<open>o2\<close>, an
  empty Pending Update Store and an empty UpdatedCellsSet.
\<close>

definition demo_panel :: notebook_panel where
  "demo_panel =
     \<lparr>isDisposed = False, hasModel = True,
      widgets = [\<lparr>cell_type = Some ''code'', source = ''print(1)''\<rparr>,
                 \<lparr>cell_type = Some ''code'', source = ''print(3)''\<rparr>],
      activeCellIndex = 0,
      notebookId = Some ''nb1'',
      pendingUpdates = Some [],
      updatedCells = Some [],
      PERSISTENT_USER_ID = Some ''u1'',
      interactions = [],
      reported = [],
      nowISO = ''2026-01-01T00:00:00.000Z'',
      nowLocale = ''1/1/2026, 12:00:00 AM''\<rparr>"

text \<open>
  The mapping of the example: \<open>o1\<close> and \<open>o2\<close> for the two cells; once a cell has been
  inserted, the inserted copy shares the original id \<open>o1\<close>.
\<close>

definition demo_mapping :: orig_mapping where
  "demo_mapping = (\<lambda>panel. if length (widgets panel) = 2 then [''o1'', ''o2'']
                            else [''o1'', ''o1'', ''o2''])"

text \<open>A code cell update for the original id \<open>oid\<close>, and a payload of cell updates.\<close>

definition demo_cell_update :: "string \<Rightarrow> string \<Rightarrow> cell_update" where
  "demo_cell_update oid src =
     \<lparr>cu_id = Some oid, cu_cell_id = None, cu_cell_type = Some ''code'', cu_source = Some src\<rparr>"

definition demo_payload :: "cell_update list \<Rightarrow> payload" where
  "demo_payload cus =
     \<lparr>payload_update_id = None, payload_id = None, payload_cell_id = None, cells = Some cus\<rparr>"




text \<open>A stored pending update for the original id \<open>oid\<close>.\<close>

definition demo_pending :: "string \<Rightarrow> string \<Rightarrow> string \<Rightarrow> sender_type \<Rightarrow> pending_update" where
  "demo_pending oid src sndr ty =
     \<lparr>pu_id = oid, message = Parsed (demo_payload [demo_cell_update oid src]),
      timeReceived = ''2025-12-31T00:00:00.000Z'', sender = sndr, senderType = ty,
      updateId = Some (''up-'' @ oid), cellId = Some oid\<rparr>"


text \<open>
  A stored update for \<open>o1\<close> whose message has no \<open>cells\<close> property: what
  \<open>Update Later\<close> stores for the notebook update \<open>{"id": "o1"}\<close>. A mapping with more
  entries than the example has cells. The example notebook with a given store.
\<close>

definition demo_no_cells :: pending_update where
  "demo_no_cells =
     \<lparr>pu_id = ''o1'',
      message = Parsed \<lparr>payload_update_id = None, payload_id = Some ''o1'',
                        payload_cell_id = None, cells = None\<rparr>,
      timeReceived = ''2025-12-31T00:00:00.000Z'', sender = ''teacher'', senderType = Teacher,
      updateId = Some ''up1'', cellId = Some ''o1''\<rparr>"

definition demo_stale_mapping :: orig_mapping where
  "demo_stale_mapping = (\<lambda>panel. [''o1'', ''o2'', ''o3''])"

definition demo_store :: "pending_update list \<Rightarrow> notebook_panel" where
  "demo_store updates = demo_panel\<lparr>pendingUpdates := Some updates\<rparr>"

text \<open>Sidebars showing the teacher's updates only, and all updates.\<close>

definition demo_teacher_only :: sidebar where
  "demo_teacher_only = \<lparr>filterMode = FilterTeacher, selectedTeammateFilters = []\<rparr>"

definition demo_all :: sidebar where
  "demo_all = \<lparr>filterMode = FilterAll, selectedTeammateFilters = []\<rparr>"

section \<open>Lists and frames\<close>

lemma lastIndexOf_None_iff: "lastIndexOf xs x = None \<longleftrightarrow> x \<notin> set xs"
  by (induction xs) (auto split: option.splits)


lemma lastIndexOf_Some_nth: "lastIndexOf xs x = Some i \<Longrightarrow> xs ! i = x"
  by (induction xs arbitrary: i) (auto split: option.splits if_splits)

lemma lastIndexOf_greatest:
  "lastIndexOf xs x = Some i \<Longrightarrow> i < k \<Longrightarrow> k < length xs \<Longrightarrow> xs ! k \<noteq> x"
proof (induction xs arbitrary: i k)
  case Nil
  then show ?case by simp
next
  case (Cons y ys)
  show ?case
  proof (cases "lastIndexOf ys x")
    case None
    then have "x \<notin> set ys" by (simp add: lastIndexOf_None_iff)
    with Cons.prems show ?thesis by (cases k) auto
  next
    case (Some i')
    with Cons.prems have i: "i = Suc i'" by simp
    with Cons.prems obtain k' where k: "k = Suc k'" by (cases k) auto
    with Cons.IH [OF Some, of k'] Cons.prems i show ?thesis by simp
  qed
qed

lemma indexOf_Some_nth: "indexOf xs x = Some j \<Longrightarrow> j < length xs \<and> xs ! j = x"
  by (induction xs arbitrary: j) (auto split: if_splits)

lemma indexOf_least: "indexOf xs x = Some j \<Longrightarrow> k < j \<Longrightarrow> xs ! k \<noteq> x"
proof (induction xs arbitrary: j k)
  case Nil
  then show ?case by simp
next
  case (Cons y ys)
  then show ?case by (cases k) (auto split: if_splits)
qed

lemma indexOf_le_lastIndexOf:
  "indexOf xs x = Some j \<Longrightarrow> lastIndexOf xs x = Some i \<Longrightarrow> j \<le> i"
  by (induction xs arbitrary: i j) (auto split: option.splits if_splits)

lemma indexOf_None_iff: "indexOf xs x = None \<longleftrightarrow> x \<notin> set xs"
  by (induction xs) auto



section \<open>Properties of the store\<close>

lemma log_frame [simp]:
  "widgets (logPendingUpdateInteraction p a c s t u) = widgets p"
  "updatedCells (logPendingUpdateInteraction p a c s t u) = updatedCells p"
  "reported (logPendingUpdateInteraction p a c s t u) = reported p"
  "isDisposed (logPendingUpdateInteraction p a c s t u) = isDisposed p"
  "pendingUpdates (logPendingUpdateInteraction p a c s t u) = pendingUpdates p"
  by (simp_all add: logPendingUpdateInteraction_def split: option.splits)

text \<open>
  C10. Marking a cell as updated is idempotent: when the id is already in the list
  \<open>getUpdatedCells\<close> reads, \<open>markCellAsUpdated\<close> leaves the panel, and so its metadata,
  as it is; marking twice is marking once; and a list of updated cells without duplicate
  ids, as read or as stored, stays without duplicates.
\<close>

theorem markCellAsUpdated_idempotent:
  "(cid \<in> set (getUpdatedCells panel) \<longrightarrow> markCellAsUpdated panel cid = panel) \<and>
   markCellAsUpdated (markCellAsUpdated panel cid) cid = markCellAsUpdated panel cid \<and>
   (distinct (getUpdatedCells panel) \<longrightarrow>
      distinct (getUpdatedCells (markCellAsUpdated panel cid))) \<and>
   ((\<forall>l. updatedCells panel = Some l \<longrightarrow> distinct l) \<longrightarrow>
      (\<forall>l. updatedCells (markCellAsUpdated panel cid) = Some l \<longrightarrow> distinct l))"
  by (auto simp: markCellAsUpdated_def getUpdatedCells_def Let_def split: option.splits)

theorem markCellAsUpdated_idempotent_witness:
  "''o1'' \<in> set (getUpdatedCells (demo_panel\<lparr>updatedCells := Some [''o2'', ''o1'']\<rparr>)) \<and>
   markCellAsUpdated (demo_panel\<lparr>updatedCells := Some [''o2'', ''o1'']\<rparr>) ''o1'' =
     demo_panel\<lparr>updatedCells := Some [''o2'', ''o1'']\<rparr> \<and>
   distinct (getUpdatedCells (demo_panel\<lparr>updatedCells := Some [''o2'', ''o1'']\<rparr>)) \<and>
   distinct (getUpdatedCells
     (markCellAsUpdated (demo_panel\<lparr>updatedCells := Some [''o2'', ''o1'']\<rparr>) ''o1''))"
proof -
  have recorded: "''o1'' \<in> set (getUpdatedCells (demo_panel\<lparr>updatedCells := Some [''o2'', ''o1'']\<rparr>))"
    and unique: "distinct (getUpdatedCells (demo_panel\<lparr>updatedCells := Some [''o2'', ''o1'']\<rparr>))"
    by (simp_all add: getUpdatedCells_def demo_panel_def)
  from markCellAsUpdated_idempotent
    [of "''o1''" "demo_panel\<lparr>updatedCells := Some [''o2'', ''o1'']\<rparr>"] recorded unique
  show ?thesis by blast
qed

text \<open>
  C4. The \<open>Update Later\<close> handler is an upsert. Whatever the store held, the stored list
  afterwards has exactly one entry with the new update's id, and that entry carries the new
  payload, sender, sender type and time of receipt; the entries with other ids are kept as
  they were; and when the ids of the store were unique before, they are unique afterwards.
\<close>

theorem laterButton_click_upsert:
  fixes panel newContent cid finalUpdateId sndr sndrType
  defines "newId \<equiv> (case js_or cid (Some finalUpdateId) of Some i \<Rightarrow> i | None \<Rightarrow> finalUpdateId)"
  defines "newUpdate \<equiv> \<lparr>pu_id = newId, message = newContent, timeReceived = nowISO panel,
                         sender = sndr, senderType = sndrType, updateId = Some finalUpdateId,
                         cellId = cid\<rparr>"
  shows "\<exists>store'. pendingUpdates (laterButton_click panel newContent cid finalUpdateId sndr sndrType)
                    = Some store' \<and>
           filter (\<lambda>u. pu_id u = newId) store' = [newUpdate] \<and>
           filter (\<lambda>u. pu_id u \<noteq> newId) store' =
             filter (\<lambda>u. pu_id u \<noteq> newId) (getPendingUpdates panel) \<and>
           (distinct (map pu_id (getPendingUpdates panel)) \<longrightarrow> distinct (map pu_id store'))"
  by (auto simp: laterButton_click_def Let_def setPendingUpdates_def newId_def newUpdate_def
      distinct_map_filter filter_empty_conv)

theorem laterButton_click_upsert_witness:
  "distinct (map pu_id (getPendingUpdates
      (demo_panel\<lparr>pendingUpdates := Some [demo_pending ''o1'' ''print(2)'' ''teacher'' Teacher,
                                             demo_pending ''o2'' ''print(5)'' ''mate'' Teammate]\<rparr>))) \<and>
   pendingUpdates (laterButton_click
      (demo_panel\<lparr>pendingUpdates := Some [demo_pending ''o1'' ''print(2)'' ''teacher'' Teacher,
                                             demo_pending ''o2'' ''print(5)'' ''mate'' Teammate]\<rparr>)
      (Parsed (demo_payload [demo_cell_update ''o1'' ''print(7)''])) (Some ''o1'') ''up9''
      ''mate'' Teammate) =
     Some [demo_pending ''o2'' ''print(5)'' ''mate'' Teammate,
           \<lparr>pu_id = ''o1'', message = Parsed (demo_payload [demo_cell_update ''o1'' ''print(7)'']),
            timeReceived = ''2026-01-01T00:00:00.000Z'', sender = ''mate'', senderType = Teammate,
            updateId = Some ''up9'', cellId = Some ''o1''\<rparr>]"
  using laterButton_click_upsert
    [of "demo_panel\<lparr>pendingUpdates := Some [demo_pending ''o1'' ''print(2)'' ''teacher'' Teacher,
                                             demo_pending ''o2'' ''print(5)'' ''mate'' Teammate]\<rparr>"
        "Parsed (demo_payload [demo_cell_update ''o1'' ''print(7)''])" "Some ''o1''" "''up9''"
        "''mate''" Teammate]
  by (simp add: laterButton_click_def getPendingUpdates_def setPendingUpdates_def demo_pending_def
      demo_panel_def js_or_def truthy_def Let_def)

section \<open>Properties of the merge\<close>

lemma logApplySingle_frame [simp]:
  "widgets (logApplySingle p c s t u cus) = widgets p"
  "updatedCells (logApplySingle p c s t u cus) = updatedCells p"
  "reported (logApplySingle p c s t u cus) = reported p"
  "isDisposed (logApplySingle p c s t u cus) = isDisposed p"
  "pendingUpdates (logApplySingle p c s t u cus) = pendingUpdates p"
  by (induction p c s t u cus rule: logApplySingle.induct) simp_all




lemma markCellAsUpdated_frame [simp]:
  "widgets (markCellAsUpdated p c) = widgets p"
  "reported (markCellAsUpdated p c) = reported p"
  "isDisposed (markCellAsUpdated p c) = isDisposed p"
  "pendingUpdates (markCellAsUpdated p c) = pendingUpdates p"
  "notebookId (markCellAsUpdated p c) = notebookId p"
  "PERSISTENT_USER_ID (markCellAsUpdated p c) = PERSISTENT_USER_ID p"
  by (simp_all add: markCellAsUpdated_def Let_def)

lemma getUpdatedCells_frame [simp]:
  "getUpdatedCells (p\<lparr>activeCellIndex := a\<rparr>) = getUpdatedCells p"
  "getUpdatedCells (p\<lparr>widgets := w\<rparr>) = getUpdatedCells p"
  "getUpdatedCells (p\<lparr>reported := r\<rparr>) = getUpdatedCells p"
  "getUpdatedCells (p\<lparr>interactions := l\<rparr>) = getUpdatedCells p"
  "getUpdatedCells (p\<lparr>pendingUpdates := pu\<rparr>) = getUpdatedCells p"
  by (simp_all add: getUpdatedCells_def)




lemmas demo_defs = demo_mapping_def demo_cell_update_def demo_payload_def demo_panel_def

lemmas merge_defs = updateNotebookContent_def updateNotebookContent_try_def applyCellUpdate_def
  insertAbove_def changeCellType_def setSource_def addCell_def markCellAsUpdated_def
  getUpdatedCells_def cellUpdateSource_def cellType_of_def yourCodePrefix_def
  logPendingUpdateInteraction_def js_or_def truthy_def Let_def










section \<open>What an application leaves unchanged\<close>

lemma applyCellUpdate_frame:
  assumes "applyCellUpdate m t uc p cu = Inr p'"
  shows "isDisposed p' = isDisposed p \<and> pendingUpdates p' = pendingUpdates p \<and>
         interactions p' = interactions p \<and> reported p' = reported p \<and>
         notebookId p' = notebookId p \<and> PERSISTENT_USER_ID p' = PERSISTENT_USER_ID p \<and>
         nowISO p' = nowISO p"
  using assms
  by (auto simp: applyCellUpdate_def Let_def insertAbove_def changeCellType_def setSource_def
      addCell_def markCellAsUpdated_def split: option.splits if_splits)

lemma applyCellUpdates_frame:
  assumes "applyCellUpdates m t uc p cus = (p', e)"
  shows "isDisposed p' = isDisposed p \<and> pendingUpdates p' = pendingUpdates p \<and>
         interactions p' = interactions p \<and> reported p' = reported p \<and>
         notebookId p' = notebookId p \<and> PERSISTENT_USER_ID p' = PERSISTENT_USER_ID p \<and>
         nowISO p' = nowISO p"
  using assms
proof (induction cus arbitrary: p)
  case Nil
  then show ?case by simp
next
  case (Cons cu cus)
  show ?case
  proof (cases "applyCellUpdate m t uc p cu")
    case (Inl err)
    with Cons.prems show ?thesis by simp
  next
    case (Inr q)
    with Cons.prems have "applyCellUpdates m t uc q cus = (p', e)" by simp
    from Cons.IH [OF this] applyCellUpdate_frame [OF Inr] show ?thesis by simp
  qed
qed

lemma logApplySingle_frame2 [simp]:
  "notebookId (logApplySingle p c s t u cus) = notebookId p"
  "PERSISTENT_USER_ID (logApplySingle p c s t u cus) = PERSISTENT_USER_ID p"
  "nowISO (logApplySingle p c s t u cus) = nowISO p"
  by (induction p c s t u cus rule: logApplySingle.induct)
    (simp_all add: logPendingUpdateInteraction_def split: option.splits)

lemma updateNotebookContent_try_frame:
  assumes "updateNotebookContent_try gm p msg uid cid s t skip = (p', e)"
  shows "isDisposed p' = isDisposed p \<and> pendingUpdates p' = pendingUpdates p \<and>
         notebookId p' = notebookId p \<and> PERSISTENT_USER_ID p' = PERSISTENT_USER_ID p \<and>
         nowISO p' = nowISO p \<and> reported p' = reported p \<and>
         (skip \<longrightarrow> interactions p' = interactions p)"
proof (cases msg)
  case Unparseable
  with assms show ?thesis by (simp add: updateNotebookContent_try_def)
next
  case (Parsed obj)
  show ?thesis
  proof (cases "cells obj")
    case None
    with assms Parsed show ?thesis by (simp add: updateNotebookContent_try_def)
  next
    case (Some cus)
    obtain p1 e1 where a: "applyCellUpdates (gm p) (nowLocale p) (getUpdatedCells p) p cus = (p1, e1)"
      by (cases "applyCellUpdates (gm p) (nowLocale p) (getUpdatedCells p) p cus") blast
    note f = applyCellUpdates_frame [OF a]
    show ?thesis
      using assms Parsed Some a f
      by (cases e1) (auto simp: updateNotebookContent_try_def split: if_splits)
  qed
qed

lemma updateNotebookContent_frame:
  "isDisposed (updateNotebookContent gm p msg uid cid s t skip) = isDisposed p"
  "pendingUpdates (updateNotebookContent gm p msg uid cid s t skip) = pendingUpdates p"
  "notebookId (updateNotebookContent gm p msg uid cid s t skip) = notebookId p"
  "PERSISTENT_USER_ID (updateNotebookContent gm p msg uid cid s t skip) = PERSISTENT_USER_ID p"
  "nowISO (updateNotebookContent gm p msg uid cid s t skip) = nowISO p"
  "interactions (updateNotebookContent gm p msg uid cid s t True) = interactions p"
proof -
  obtain p1 e1 where a: "updateNotebookContent_try gm p msg uid cid s t skip = (p1, e1)"
    by (cases "updateNotebookContent_try gm p msg uid cid s t skip") blast
  obtain p2 e2 where b: "updateNotebookContent_try gm p msg uid cid s t True = (p2, e2)"
    by (cases "updateNotebookContent_try gm p msg uid cid s t True") blast
  note fa = updateNotebookContent_try_frame [OF a]
  note fb = updateNotebookContent_try_frame [OF b]
  show "isDisposed (updateNotebookContent gm p msg uid cid s t skip) = isDisposed p"
    "pendingUpdates (updateNotebookContent gm p msg uid cid s t skip) = pendingUpdates p"
    "notebookId (updateNotebookContent gm p msg uid cid s t skip) = notebookId p"
    "PERSISTENT_USER_ID (updateNotebookContent gm p msg uid cid s t skip) = PERSISTENT_USER_ID p"
    "nowISO (updateNotebookContent gm p msg uid cid s t skip) = nowISO p"
    using a fa by (cases e1; simp add: updateNotebookContent_def)+
  show "interactions (updateNotebookContent gm p msg uid cid s t True) = interactions p"
    using b fb by (cases e2; simp add: updateNotebookContent_def)
qed


section \<open>Applying pending updates\<close>

lemmas store_defs = applyPendingUpdate_def pendingIds_def removePendingUpdate_def
  getPendingUpdates_def setPendingUpdates_def demo_store_def demo_pending_def

text \<open>
  C3. The specification keeps an entry whose application fails in the store. The code at
  two failing applications on an open notebook: the message has no \<open>cells\<close> to iterate over,
  or the mapping names a position beyond the last cell; each raises a TypeError inside
  \<open>updateNotebookContent\<close>, which reports it and returns normally. The document is
  unchanged, and \<open>applyPendingUpdate\<close> goes on to remove the entry from the store.
\<close>

theorem applyPendingUpdate_removes_after_failed_apply:
  "reported (applyPendingUpdate demo_mapping
      (demo_store [demo_no_cells, demo_pending ''o2'' ''print(5)'' ''mate'' Teammate])
      demo_no_cells False) = [TypeError] \<and>
   widgets (applyPendingUpdate demo_mapping
      (demo_store [demo_no_cells, demo_pending ''o2'' ''print(5)'' ''mate'' Teammate])
      demo_no_cells False) = widgets demo_panel \<and>
   getPendingUpdates (applyPendingUpdate demo_mapping
      (demo_store [demo_no_cells, demo_pending ''o2'' ''print(5)'' ''mate'' Teammate])
      demo_no_cells False) = [demo_pending ''o2'' ''print(5)'' ''mate'' Teammate] \<and>
   reported (applyPendingUpdate demo_stale_mapping
      (demo_store [demo_pending ''o3'' ''print(6)'' ''teacher'' Teacher])
      (demo_pending ''o3'' ''print(6)'' ''teacher'' Teacher) False) = [TypeError] \<and>
   widgets (applyPendingUpdate demo_stale_mapping
      (demo_store [demo_pending ''o3'' ''print(6)'' ''teacher'' Teacher])
      (demo_pending ''o3'' ''print(6)'' ''teacher'' Teacher) False) = widgets demo_panel \<and>
   getPendingUpdates (applyPendingUpdate demo_stale_mapping
      (demo_store [demo_pending ''o3'' ''print(6)'' ''teacher'' Teacher])
      (demo_pending ''o3'' ''print(6)'' ''teacher'' Teacher) False) = []"
  by (simp add: store_defs demo_no_cells_def demo_stale_mapping_def demo_defs merge_defs)

lemma removePendingUpdate_quiet:
  "removePendingUpdate p c False s t u =
     (if isDisposed p then p
      else p\<lparr>pendingUpdates := Some (filter (\<lambda>v. pu_id v \<noteq> c) (getPendingUpdates p))\<rparr>)"
  by (simp add: removePendingUpdate_def setPendingUpdates_def Let_def split: option.splits)

lemma applyPendingUpdate_store:
  assumes "\<not> isDisposed p"
  shows "getPendingUpdates (applyPendingUpdate gm p u skip) =
           filter (\<lambda>v. pu_id v \<noteq> pu_id u) (getPendingUpdates p)"
    and "\<not> isDisposed (applyPendingUpdate gm p u skip)"
  using assms
  by (simp_all add: applyPendingUpdate_def removePendingUpdate_quiet updateNotebookContent_frame
      getPendingUpdates_def Let_def split: prod.splits)

lemma applyPendingUpdate_quiet:
  "interactions (applyPendingUpdate gm p u True) = interactions p"
  by (simp add: applyPendingUpdate_def removePendingUpdate_quiet updateNotebookContent_frame
      Let_def split: prod.splits)

lemma applyAll_loop_store:
  "\<not> isDisposed p \<Longrightarrow>
   getPendingUpdates (applyAll_loop gm p us) =
     filter (\<lambda>v. pu_id v \<notin> pu_id ` set us) (getPendingUpdates p)"
proof (induction us arbitrary: p)
  case Nil
  then show ?case by simp
next
  case (Cons u us)
  from Cons.prems have live: "\<not> isDisposed (applyPendingUpdate gm p u True)"
    by (rule applyPendingUpdate_store(2))
  show ?case
    using Cons.IH [OF live] applyPendingUpdate_store(1) [OF Cons.prems, of gm u True]
    by (simp add: conj_commute)
qed

lemma applyAll_loop_quiet:
  "interactions (applyAll_loop gm p us) = interactions p"
  by (induction us arbitrary: p) (simp_all add: applyPendingUpdate_quiet)

lemma applyAll_loop_foldl:
  "applyAll_loop gm p us = foldl (\<lambda>q u. applyPendingUpdate gm q u True) p us"
  by (induction us arbitrary: p) simp_all

lemma getFilteredUpdates_live:
  "getFilteredUpdates sb panel \<noteq> [] \<Longrightarrow> \<not> isDisposed panel"
  by (auto simp: getFilteredUpdates_def)

lemma getPendingUpdates_log [simp]:
  "getPendingUpdates (logPendingUpdateInteraction p a c s t u) = getPendingUpdates p"
  by (simp add: getPendingUpdates_def)

text \<open>
  C9, as amended. For a non-empty filtered view, \<open>Apply All\<close> applies the updates of the
  view, in order and each with logging skipped, and nothing else: afterwards the store
  holds exactly the entries whose id is not an id of the view. It logs one \<open>UPDATE_ALL\<close>
  record when the first update of the view carries an \<open>updateId\<close> and a user id and a
  notebook id are available, and no record otherwise. It logs no \<open>APPLY_SINGLE\<close> record.
\<close>

theorem applyAllBtn_onclick_view_and_log:
  fixes gm :: orig_mapping and sb panel u0 rest
  assumes "getFilteredUpdates sb panel = u0 # rest"
  defines "panel' \<equiv> applyAllBtn_onclick gm sb panel"
  defines "logged \<equiv> truthy (updateId u0) \<and> truthy (PERSISTENT_USER_ID panel) \<and>
                     truthy (notebookId panel)"
  shows "panel' = foldl (\<lambda>q u. applyPendingUpdate gm q u True)
                    (if truthy (updateId u0)
                     then logPendingUpdateInteraction panel UPDATE_ALL None (Some (sender u0))
                            (Some (senderType u0)) (updateId u0)
                     else panel)
                    (u0 # rest) \<and>
         getPendingUpdates panel' =
           filter (\<lambda>v. pu_id v \<notin> pu_id ` set (u0 # rest)) (getPendingUpdates panel) \<and>
         (logged \<longrightarrow>
            (\<exists>nb. notebookId panel = Some nb \<and>
               interactions panel' = interactions panel @
                 [\<lparr>notebook_id = nb, cell_id = None, update_id = updateId u0,
                   log_action = UPDATE_ALL, log_sender = Some (sender u0),
                   log_sender_type = Some (senderType u0), time = nowISO panel\<rparr>])) \<and>
         (\<not> logged \<longrightarrow> interactions panel' = interactions panel) \<and>
         filter (\<lambda>r. log_action r = APPLY_SINGLE) (interactions panel') =
           filter (\<lambda>r. log_action r = APPLY_SINGLE) (interactions panel)"
proof -
  have live: "\<not> isDisposed panel"
    using assms(1) getFilteredUpdates_live [of sb panel] by simp
  let ?p1 = "if truthy (updateId u0)
             then logPendingUpdateInteraction panel UPDATE_ALL None (Some (sender u0))
                    (Some (senderType u0)) (updateId u0)
             else panel"
  have eq: "panel' = applyAll_loop gm ?p1 (u0 # rest)"
    using assms(1) live by (simp add: panel'_def applyAllBtn_onclick_def)
  have live1: "\<not> isDisposed ?p1"
    using live by simp
  have store: "getPendingUpdates panel' =
      filter (\<lambda>v. pu_id v \<notin> pu_id ` set (u0 # rest)) (getPendingUpdates panel)"
    unfolding eq using applyAll_loop_store [OF live1, of gm "u0 # rest"] by simp
  have log: "interactions panel' = interactions ?p1"
    unfolding eq by (rule applyAll_loop_quiet)
  have l1: "logged \<longrightarrow>
            (\<exists>nb. notebookId panel = Some nb \<and>
               interactions panel' = interactions panel @
                 [\<lparr>notebook_id = nb, cell_id = None, update_id = updateId u0,
                   log_action = UPDATE_ALL, log_sender = Some (sender u0),
                   log_sender_type = Some (senderType u0), time = nowISO panel\<rparr>])"
    unfolding log
    by (auto simp: logged_def logPendingUpdateInteraction_def truthy_def split: option.splits)
  have l2: "\<not> logged \<longrightarrow> interactions panel' = interactions panel"
    unfolding log
    by (auto simp: logged_def logPendingUpdateInteraction_def truthy_def split: option.splits)
  have l3: "filter (\<lambda>r. log_action r = APPLY_SINGLE) (interactions panel') =
           filter (\<lambda>r. log_action r = APPLY_SINGLE) (interactions panel)"
    using l1 l2 by (cases logged) auto
  show ?thesis
    using eq store l1 l2 l3 by (simp add: applyAll_loop_foldl)
qed


lemmas sidebar_defs = applyAllBtn_onclick_def getFilteredUpdates_def demo_teacher_only_def
  demo_all_def

theorem applyAllBtn_onclick_view_and_log_witness:
  "getFilteredUpdates demo_teacher_only
      (demo_store [demo_pending ''o1'' ''print(2)'' ''teacher'' Teacher,
                   demo_pending ''o2'' ''print(5)'' ''mate'' Teammate]) =
     [demo_pending ''o1'' ''print(2)'' ''teacher'' Teacher] \<and>
   getPendingUpdates (applyAllBtn_onclick demo_mapping demo_teacher_only
      (demo_store [demo_pending ''o1'' ''print(2)'' ''teacher'' Teacher,
                   demo_pending ''o2'' ''print(5)'' ''mate'' Teammate])) =
     [demo_pending ''o2'' ''print(5)'' ''mate'' Teammate] \<and>
   interactions (applyAllBtn_onclick demo_mapping demo_teacher_only
      (demo_store [demo_pending ''o1'' ''print(2)'' ''teacher'' Teacher,
                   demo_pending ''o2'' ''print(5)'' ''mate'' Teammate])) =
     [\<lparr>notebook_id = ''nb1'', cell_id = None, update_id = Some ''up-o1'',
       log_action = UPDATE_ALL, log_sender = Some ''teacher'', log_sender_type = Some Teacher,
       time = ''2026-01-01T00:00:00.000Z''\<rparr>]"
proof -
  have view: "getFilteredUpdates demo_teacher_only
      (demo_store [demo_pending ''o1'' ''print(2)'' ''teacher'' Teacher,
                   demo_pending ''o2'' ''print(5)'' ''mate'' Teammate]) =
     [demo_pending ''o1'' ''print(2)'' ''teacher'' Teacher]"
    by (simp add: sidebar_defs getPendingUpdates_def demo_store_def demo_pending_def
        demo_panel_def)
  have vals: "getPendingUpdates (demo_store [demo_pending ''o1'' ''print(2)'' ''teacher'' Teacher,
                   demo_pending ''o2'' ''print(5)'' ''mate'' Teammate]) =
      [demo_pending ''o1'' ''print(2)'' ''teacher'' Teacher,
       demo_pending ''o2'' ''print(5)'' ''mate'' Teammate]"
    "interactions (demo_store [demo_pending ''o1'' ''print(2)'' ''teacher'' Teacher,
                   demo_pending ''o2'' ''print(5)'' ''mate'' Teammate]) = []"
    "notebookId (demo_store [demo_pending ''o1'' ''print(2)'' ''teacher'' Teacher,
                   demo_pending ''o2'' ''print(5)'' ''mate'' Teammate]) = Some ''nb1''"
    "PERSISTENT_USER_ID (demo_store [demo_pending ''o1'' ''print(2)'' ''teacher'' Teacher,
                   demo_pending ''o2'' ''print(5)'' ''mate'' Teammate]) = Some ''u1''"
    "nowISO (demo_store [demo_pending ''o1'' ''print(2)'' ''teacher'' Teacher,
                   demo_pending ''o2'' ''print(5)'' ''mate'' Teammate]) = ''2026-01-01T00:00:00.000Z''"
    by (simp_all add: getPendingUpdates_def demo_store_def demo_panel_def)
  show ?thesis
    using applyAllBtn_onclick_view_and_log [OF view, of demo_mapping, THEN conjunct2] view vals
    by (simp add: demo_pending_def truthy_def)
qed

theorem applyAll_without_updateId_counterexample:
  "getFilteredUpdates demo_all
      (demo_store [(demo_pending ''o1'' ''print(2)'' ''teacher'' Teacher)\<lparr>updateId := None\<rparr>]) =
     [(demo_pending ''o1'' ''print(2)'' ''teacher'' Teacher)\<lparr>updateId := None\<rparr>] \<and>
   interactions (applyAllBtn_onclick demo_mapping demo_all
      (demo_store [(demo_pending ''o1'' ''print(2)'' ''teacher'' Teacher)\<lparr>updateId := None\<rparr>])) = [] \<and>
   getPendingUpdates (applyAllBtn_onclick demo_mapping demo_all
      (demo_store [(demo_pending ''o1'' ''print(2)'' ''teacher'' Teacher)\<lparr>updateId := None\<rparr>])) = [] \<and>
   getFilteredUpdates demo_all
      ((demo_store [demo_pending ''o1'' ''print(2)'' ''teacher'' Teacher])\<lparr>PERSISTENT_USER_ID := None\<rparr>) =
     [demo_pending ''o1'' ''print(2)'' ''teacher'' Teacher] \<and>
   interactions (applyAllBtn_onclick demo_mapping demo_all
      ((demo_store [demo_pending ''o1'' ''print(2)'' ''teacher'' Teacher])\<lparr>PERSISTENT_USER_ID := None\<rparr>)) = []"
  by (simp add: sidebar_defs store_defs demo_defs merge_defs)

section \<open>Sorting the view by cell\<close>

lemma positive_compareByCell:
  "positive (compareByCell m a b) \<longleftrightarrow> cellPosition m b < cellPosition m a"
  by (simp add: compareByCell_def cellPosition_def positive_def split: option.splits)

lemma js_insert_insort_key:
  "js_insert (compareByCell m) x ys = insort_key (cellPosition m) x ys"
  by (induction ys) (auto simp: positive_compareByCell)

lemma sortByCell_sort_key: "sortByCell m us = sort_key (cellPosition m) us"
  unfolding sortByCell_def
  by (induction us) (simp_all add: js_insert_insort_key)

lemma cellPosition_infinity: "cellPosition m u = \<infinity> \<longleftrightarrow> pu_id u \<notin> set m"
  using lastIndexOf_None_iff [of m "pu_id u"]
  by (cases "lastIndexOf m (pu_id u)") (auto simp: cellPosition_def)

text \<open>
  C8. Sorting by the \<open>cell\<close> key permutes the view; the result is in ascending order of
  the position of the updates' ids in the mapping (the last index of the id), an update
  whose id the mapping does not hold counting as beyond every position: every update after
  an unmapped one is unmapped, two mapped updates stand in the order of their positions,
  and the unmapped updates keep their relative order.
\<close>

theorem sortByCell_order:
  "mset (sortByCell m us) = mset us \<and>
   sorted (map (cellPosition m) (sortByCell m us)) \<and>
   (\<forall>i j. i < j \<and> j < length us \<and> pu_id (sortByCell m us ! i) \<notin> set m
            \<longrightarrow> pu_id (sortByCell m us ! j) \<notin> set m) \<and>
   (\<forall>i j a b. i < j \<and> j < length us \<and>
               lastIndexOf m (pu_id (sortByCell m us ! i)) = Some a \<and>
               lastIndexOf m (pu_id (sortByCell m us ! j)) = Some b
            \<longrightarrow> a \<le> b) \<and>
   filter (\<lambda>u. pu_id u \<notin> set m) (sortByCell m us) = filter (\<lambda>u. pu_id u \<notin> set m) us"
proof -
  let ?r = "sortByCell m us"
  have len: "length ?r = length us"
    by (simp add: sortByCell_sort_key)
  have srt: "sorted (map (cellPosition m) ?r)"
    by (simp add: sortByCell_sort_key)
  have mono: "cellPosition m (?r ! i) \<le> cellPosition m (?r ! j)" if "i < j" "j < length us" for i j
    using srt that len sorted_nth_mono [of "map (cellPosition m) ?r" i j] by simp
  have a: "\<forall>i j. i < j \<and> j < length us \<and> pu_id (?r ! i) \<notin> set m \<longrightarrow> pu_id (?r ! j) \<notin> set m"
  proof (intro allI impI)
    fix i j assume h: "i < j \<and> j < length us \<and> pu_id (?r ! i) \<notin> set m"
    then have "cellPosition m (?r ! i) = \<infinity>" by (simp add: cellPosition_infinity)
    with mono [of i j] h have "cellPosition m (?r ! j) = \<infinity>" by simp
    then show "pu_id (?r ! j) \<notin> set m" by (simp add: cellPosition_infinity)
  qed
  have b: "\<forall>i j a b. i < j \<and> j < length us \<and>
               lastIndexOf m (pu_id (?r ! i)) = Some a \<and>
               lastIndexOf m (pu_id (?r ! j)) = Some b \<longrightarrow> a \<le> b"
  proof (intro allI impI)
    fix i j a b
    assume h: "i < j \<and> j < length us \<and> lastIndexOf m (pu_id (?r ! i)) = Some a \<and>
               lastIndexOf m (pu_id (?r ! j)) = Some b"
    with mono [of i j] show "a \<le> b" by (simp add: cellPosition_def)
  qed
  have c: "filter (\<lambda>u. pu_id u \<notin> set m) ?r = filter (\<lambda>u. pu_id u \<notin> set m) us"
    using sort_key_stable [of "cellPosition m" \<infinity> us]
    by (simp add: sortByCell_sort_key cellPosition_infinity)
  show ?thesis
    using srt a b c by (simp add: sortByCell_sort_key)
qed

theorem sortByCell_order_witness:
  "sortByCell [''o1'', ''o2'', ''o3'']
     [demo_pending ''x9'' ''a'' ''mate'' Teammate, demo_pending ''o3'' ''b'' ''mate'' Teammate,
      demo_pending ''y9'' ''c'' ''mate'' Teammate, demo_pending ''o1'' ''d'' ''teacher'' Teacher] =
     [demo_pending ''o1'' ''d'' ''teacher'' Teacher, demo_pending ''o3'' ''b'' ''mate'' Teammate,
      demo_pending ''x9'' ''a'' ''mate'' Teammate, demo_pending ''y9'' ''c'' ''mate'' Teammate] \<and>
   filter (\<lambda>u. pu_id u \<notin> set [''o1'', ''o2'', ''o3''])
     (sortByCell [''o1'', ''o2'', ''o3'']
       [demo_pending ''x9'' ''a'' ''mate'' Teammate, demo_pending ''o3'' ''b'' ''mate'' Teammate,
        demo_pending ''y9'' ''c'' ''mate'' Teammate, demo_pending ''o1'' ''d'' ''teacher'' Teacher]) =
     [demo_pending ''x9'' ''a'' ''mate'' Teammate, demo_pending ''y9'' ''c'' ''mate'' Teammate]"
  using sortByCell_order [of "[''o1'', ''o2'', ''o3'']"
     "[demo_pending ''x9'' ''a'' ''mate'' Teammate, demo_pending ''o3'' ''b'' ''mate'' Teammate,
      demo_pending ''y9'' ''c'' ''mate'' Teammate, demo_pending ''o1'' ''d'' ''teacher'' Teacher]"]
  by (simp add: sortByCell_def compareByCell_def positive_def demo_pending_def)

section \<open>Properties of the channel client\<close>

lemma wf_constructor: "wf_manager constructor"
  by (simp add: wf_manager_def constructor_def)

lemma filter_closed_none: "list_all closed cs \<Longrightarrow> filter (\<lambda>c. \<not> closed c) cs = []"
  by (induction cs) auto

lemma wf_close:
  assumes "wf_manager mgr"
  shows "socket (closeSocketConnection mgr) = None"
    and "list_all closed (connections (closeSocketConnection mgr))"
    and "length (connections (closeSocketConnection mgr)) = length (connections mgr)"
    and "messageCallback (closeSocketConnection mgr) = messageCallback mgr"
proof -
  show "socket (closeSocketConnection mgr) = None"
    "length (connections (closeSocketConnection mgr)) = length (connections mgr)"
    "messageCallback (closeSocketConnection mgr) = messageCallback mgr"
    by (simp_all add: closeSocketConnection_def split: option.splits)
  show "list_all closed (connections (closeSocketConnection mgr))"
  proof (cases "socket mgr")
    case None
    with assms show ?thesis by (simp add: closeSocketConnection_def wf_manager_def)
  next
    case (Some i)
    with assms have i: "Suc i = length (connections mgr)"
      and c: "list_all closed (take i (connections mgr))"
      by (simp_all add: wf_manager_def)
    from i have "connections mgr = take i (connections mgr) @ [connections mgr ! i]"
      by (metis lessI take_Suc_conv_app_nth take_all order_refl)
    then have "(connections mgr)[i := (connections mgr ! i)\<lparr>closed := True\<rparr>] =
        take i (connections mgr) @ [(connections mgr ! i)\<lparr>closed := True\<rparr>]"
      using i by (metis (no_types, lifting) Suc_inject length_append_singleton list_update_length)
    with Some c show ?thesis by (simp add: closeSocketConnection_def)
  qed
qed

lemma wf_establish:
  assumes "wf_manager mgr"
  shows "wf_manager (establishSocketConnection uid mgr nb cb)"
  using wf_close [OF assms]
  by (auto simp: establishSocketConnection_def wf_manager_def createSocket_def truthy_def Let_def
      nth_append split: option.splits)

lemma wf_establish_all: "wf_manager (establish_all uid calls)"
proof (induction calls rule: rev_induct)
  case Nil
  then show ?case by (simp add: establish_all_def wf_constructor)
next
  case (snoc c calls)
  then show ?case
    by (cases c) (simp add: establish_all_def wf_establish)
qed

lemma wf_live:
  assumes "wf_manager mgr"
  shows "live mgr = (case socket mgr of None \<Rightarrow> [] | Some i \<Rightarrow> [connections mgr ! i])"
proof (cases "socket mgr")
  case None
  with assms show ?thesis by (simp add: live_def wf_manager_def filter_closed_none)
next
  case (Some i)
  with assms have i: "Suc i = length (connections mgr)" and o: "\<not> closed (connections mgr ! i)"
    and c: "list_all closed (take i (connections mgr))"
    by (simp_all add: wf_manager_def)
  from i have "connections mgr = take i (connections mgr) @ [connections mgr ! i]"
    by (metis lessI take_Suc_conv_app_nth take_all order_refl)
  then have "live mgr = filter (\<lambda>c. \<not> closed c) (take i (connections mgr) @ [connections mgr ! i])"
    by (simp add: live_def)
  with Some o c show ?thesis by (simp add: filter_closed_none)
qed

text \<open>
  C6. After any sequence of \<open>establishSocketConnection\<close> calls on a new manager at most
  one socket is live. A further call with a document id and a user id leaves exactly one
  live socket, bound to that document id, and every socket made before the call is closed;
  a further call with a missing document id or a missing user id leaves no socket live and
  makes none.
\<close>

theorem establishSocketConnection_one_live:
  fixes uid :: "string option" and calls :: "(string option \<times> 'cb) list"
  defines "mgr \<equiv> establish_all uid calls"
  shows "length (live mgr) \<le> 1 \<and>
         (\<forall>nb cb n u. nb = Some n \<and> n \<noteq> [] \<and> uid = Some u \<and> u \<noteq> [] \<longrightarrow>
            live (establishSocketConnection uid mgr nb cb) =
              [\<lparr>nbId = n, userId = u, closed = False\<rparr>] \<and>
            list_all closed (take (length (connections mgr))
              (connections (establishSocketConnection uid mgr nb cb)))) \<and>
         (\<forall>nb cb. \<not> truthy nb \<or> \<not> truthy uid \<longrightarrow>
            live (establishSocketConnection uid mgr nb cb) = [] \<and>
            length (connections (establishSocketConnection uid mgr nb cb)) =
              length (connections mgr))"
proof -
  have wf: "wf_manager mgr"
    unfolding mgr_def by (rule wf_establish_all)
  have one: "length (live mgr) \<le> 1"
    using wf_live [OF wf] by (simp split: option.splits)
  note cl = wf_close [OF wf]
  have two: "live (establishSocketConnection uid mgr nb cb) =
              [\<lparr>nbId = n, userId = u, closed = False\<rparr>] \<and>
            list_all closed (take (length (connections mgr))
              (connections (establishSocketConnection uid mgr nb cb)))"
    if "nb = Some n \<and> n \<noteq> [] \<and> uid = Some u \<and> u \<noteq> []" for nb cb n u
    using that cl wf_live [OF wf_establish [OF wf, of uid nb cb]]
    by (simp add: establishSocketConnection_def createSocket_def truthy_def Let_def nth_append)
  have three: "live (establishSocketConnection uid mgr nb cb) = [] \<and>
            length (connections (establishSocketConnection uid mgr nb cb)) =
              length (connections mgr)"
    if "\<not> truthy nb \<or> \<not> truthy uid" for nb cb
    using that cl wf_live [OF wf_establish [OF wf, of uid nb cb]]
    by (auto simp: establishSocketConnection_def Let_def)
  show ?thesis
    using one two three by blast
qed


lemmas ws_defs = establish_all_def establishSocketConnection_def closeSocketConnection_def
  createSocket_def constructor_def live_def truthy_def Let_def

theorem establishSocketConnection_one_live_witness:
  "live (establishSocketConnection (Some ''u1'')
      (establish_all (Some ''u1'') [(Some ''nb1'', ())]) (Some ''nb2'') ()) =
     [\<lparr>nbId = ''nb2'', userId = ''u1'', closed = False\<rparr>] \<and>
   connections (establishSocketConnection (Some ''u1'')
      (establish_all (Some ''u1'') [(Some ''nb1'', ())]) (Some ''nb2'') ()) =
     [\<lparr>nbId = ''nb1'', userId = ''u1'', closed = True\<rparr>,
      \<lparr>nbId = ''nb2'', userId = ''u1'', closed = False\<rparr>] \<and>
   live (establishSocketConnection (Some ''u1'')
      (establish_all (Some ''u1'') [(Some ''nb1'', ())]) None ()) = [] \<and>
   connections (establishSocketConnection (Some ''u1'')
      (establish_all (Some ''u1'') [(Some ''nb1'', ())]) None ()) =
     [\<lparr>nbId = ''nb1'', userId = ''u1'', closed = True\<rparr>]"
  using establishSocketConnection_one_live [of "Some ''u1''" "[(Some ''nb1'', ())]"]
  by (simp add: ws_defs)

lemma fromMatch_peer:
  assumes "peer \<noteq> []" "CHR '':'' \<notin> set peer" "\<not> is_ws (hd peer)"
  shows "fromMatch (''From '' @ peer @ '':'' @ body) = Some peer"
proof -
  obtain p ps where peer: "peer = p # ps"
    using assms(1) by (cases peer) auto
  have ws: "takeWhile is_ws (CHR '' '' # peer @ CHR '':'' # body) = [CHR '' '']"
    using assms(3) peer by (simp add: is_ws_def)
  have grp: "takeWhile (\<lambda>c. c \<noteq> CHR '':'') (peer @ CHR '':'' # body) = peer"
    using assms(2) by (induction peer) auto
  have rest: "dropWhile (\<lambda>c. c \<noteq> CHR '':'') (peer @ CHR '':'' # body) = CHR '':'' # body"
    using assms(2) by (induction peer) auto
  show ?thesis
    using ws grp rest assms(1) by (simp add: fromMatch_def)
qed

lemma trim_peer:
  assumes "peer \<noteq> []" "\<not> is_ws (hd peer)" "\<not> is_ws (last peer)"
  shows "trim peer = peer"
proof -
  have "dropWhile is_ws peer = peer"
    using assms(1,2) by (cases peer) auto
  moreover have "dropWhile is_ws (rev peer) = rev peer"
    using assms(1,3) by (cases "rev peer") (auto simp: last_rev [symmetric] hd_rev)
  ultimately show ?thesis by (simp add: trim_def)
qed

text \<open>
  C7. With a callback registered, a string \<open>From <peerId>: <body>\<close>, the peer id being
  a non-empty string without a colon and without white space at either end, makes the
  \<open>chat\<close> handler call the callback with the whole string as message, the peer id as
  sender and sender type teacher; the \<open>group_chat\<close> handler does the same with sender
  type teammate. A string the pattern does not match, as every string that does not start
  with \<open>From\<close>, gets the default sender: \<open>teacher\<close> on \<open>chat\<close>, \<open>teammate\<close> on
  \<open>group_chat\<close>.
\<close>

theorem legacy_message_normalised:
  assumes "messageCallback mgr = Some cb"
    and "peer \<noteq> []" and "CHR '':'' \<notin> set peer"
    and "\<not> is_ws (hd peer)" and "\<not> is_ws (last peer)"
  shows "on_chat mgr (Legacy (''From '' @ peer @ '':'' @ body)) =
           Some (cb, ''From '' @ peer @ '':'' @ body, peer, Teacher) \<and>
         on_group_chat mgr (Legacy (''From '' @ peer @ '':'' @ body)) =
           Some (cb, ''From '' @ peer @ '':'' @ body, peer, Teammate) \<and>
         (\<forall>d. fromMatch d = None \<longrightarrow>
            on_chat mgr (Legacy d) = Some (cb, d, ''teacher'', Teacher) \<and>
            on_group_chat mgr (Legacy d) = Some (cb, d, ''teammate'', Teammate)) \<and>
         (\<forall>d. take 4 d \<noteq> ''From'' \<longrightarrow> fromMatch d = None)"
  using assms fromMatch_peer [OF assms(2,3,4), of body] trim_peer [OF assms(2,4,5)]
  by (simp add: on_chat_def on_group_chat_def legacySender_def fromMatch_def)

theorem legacy_message_normalised_witness:
  "on_chat (constructor\<lparr>messageCallback := Some ()\<rparr>) (Legacy ''From alice: hi'') =
     Some ((), ''From alice: hi'', ''alice'', Teacher) \<and>
   on_group_chat (constructor\<lparr>messageCallback := Some ()\<rparr>) (Legacy ''From alice: hi'') =
     Some ((), ''From alice: hi'', ''alice'', Teammate) \<and>
   on_chat (constructor\<lparr>messageCallback := Some ()\<rparr>) (Legacy ''hello: {1}'') =
     Some ((), ''hello: {1}'', ''teacher'', Teacher) \<and>
   on_group_chat (constructor\<lparr>messageCallback := Some ()\<rparr>) (Legacy ''hello: {1}'') =
     Some ((), ''hello: {1}'', ''teammate'', Teammate)"
  using legacy_message_normalised
    [of "constructor\<lparr>messageCallback := Some ()\<rparr>" "()" "''alice''" "'' hi''"]
  by (simp add: is_ws_def constructor_def on_chat_def on_group_chat_def legacySender_def
      fromMatch_def)

end
